theory Spec2Isabelle
  imports Main "HOL-Library.Sublist"
begin

section \<open>The JavaScript values the program computes with\<close>

text \<open>
  Strings are lists of code units; Isabelle's \<open>char\<close> covers the code units 0 to 255,
  which is all the program's own literals need. \<open>nl\<close> is the line feed a template
  literal contains wherever the source breaks the line.
\<close>

definition nl :: string where
  "nl = [CHR 0x0A]"

text \<open>
  \<open>String.prototype.trim\<close> removes white space and line terminators from both ends: within
  the code units modelled these are TAB, LF, VT, FF, CR, SPACE and NBSP.
\<close>

definition is_whitespace :: "char \<Rightarrow> bool" where
  "is_whitespace c = ((of_char c :: nat) \<in> {9, 10, 11, 12, 13, 32, 160})"

definition trim :: "string \<Rightarrow> string" where
  "trim s = rev (dropWhile is_whitespace (rev (dropWhile is_whitespace s)))"

text \<open>\<open>Array.prototype.join\<close> on an array of strings.\<close>

fun join :: "string \<Rightarrow> string list \<Rightarrow> string" where
  "join sep [] = []"
| "join sep [x] = x"
| "join sep (x # y # ys) = x @ sep @ join sep (y # ys)"

text \<open>The decimal digits of a natural number, as \<open>toString\<close> of an integer writes them.\<close>

definition digit_char :: "nat \<Rightarrow> char" where
  "digit_char d = ''0123456789'' ! d"

fun digits :: "nat \<Rightarrow> string" where
  "digits n = (if n < 10 then [digit_char n] else digits (n div 10) @ [digit_char (n mod 10)])"

declare digits.simps [simp del]

definition int_toString :: "int \<Rightarrow> string" where
  "int_toString i = (if i < 0 then ''-'' @ digits (nat (- i)) else digits (nat i))"

text \<open>\<open>padStart(w, "0")\<close> of the digits of a natural number.\<close>

definition pad :: "nat \<Rightarrow> nat \<Rightarrow> string" where
  "pad w n = replicate (w - length (digits n)) (CHR ''0'') @ digits n"

subsection \<open>Numbers\<close>

text \<open>
  A Number is NaN, an infinity, or finite. A finite Number is kept as the data from which
  ECMAScript's \<open>Number::toString\<close> writes it: \<open>Dec neg s n\<close> is the number whose
  magnitude is \<open>0.d\<^sub>1\<dots>d\<^sub>k \<times> 10\<^sup>n\<close>, where \<open>d\<^sub>1\<dots>d\<^sub>k\<close> are the decimal digits of \<open>s\<close>,
  negative when \<open>neg\<close> holds. \<open>s = 0\<close> is zero (of either sign). So 12.5 is
  \<open>Dec False 125 2\<close> and 0.7 is \<open>Dec False 7 0\<close>. The program only tests numbers for
  truthiness and writes them into strings, and both are read off this form without any
  floating-point arithmetic.
\<close>

datatype jsnum = NaN | Inf bool | Dec bool nat int

fun truthy_num :: "jsnum \<Rightarrow> bool" where
  "truthy_num NaN = False"
| "truthy_num (Inf neg) = True"
| "truthy_num (Dec neg s n) = (s \<noteq> 0)"

definition strip_zeros :: "string \<Rightarrow> string" where
  "strip_zeros ds = rev (dropWhile (\<lambda>c. c = CHR ''0'') (rev ds))"

text \<open>
  \<open>Number::toString\<close> with radix 10 (what a template literal applies to a Number):
  \<open>k\<close> digits, as few as possible, and the exponent \<open>n\<close>; plain decimal notation while
  \<open>-5 \<le> n \<le> 21\<close>, exponential notation otherwise.
\<close>

definition magnitude_toString :: "nat \<Rightarrow> int \<Rightarrow> string" where
  "magnitude_toString s n =
     (let ds = strip_zeros (digits s); k = int (length ds) in
      if -5 \<le> n \<and> n \<le> 21 then
        (if k \<le> n then ds @ replicate (nat (n - k)) (CHR ''0'')
         else if 0 < n then take (nat n) ds @ ''.'' @ drop (nat n) ds
         else ''0.'' @ replicate (nat (- n)) (CHR ''0'') @ ds)
      else
        (let e = n - 1; c = (if e < 0 then ''-'' else ''+''); ex = digits (nat \<bar>e\<bar>) in
         if k = 1 then ds @ ''e'' @ c @ ex
         else take 1 ds @ ''.'' @ drop 1 ds @ ''e'' @ c @ ex))"

fun Number_toString :: "jsnum \<Rightarrow> string" where
  "Number_toString NaN = ''NaN''"
| "Number_toString (Inf neg) = (if neg then ''-Infinity'' else ''Infinity'')"
| "Number_toString (Dec neg s n) =
     (if s = 0 then ''0''
      else if neg then ''-'' @ magnitude_toString s n
      else magnitude_toString s n)"

section \<open>Dates\<close>

text \<open>
  A Date holds a time value: milliseconds since the epoch in UTC, or NaN (an invalid
  Date), here \<open>int option\<close> with \<open>None\<close> for NaN. The day arithmetic is ECMAScript's:
  \<open>Day\<close>, \<open>DayFromYear\<close>, \<open>YearFromTime\<close>, \<open>InLeapYear\<close>, \<open>WeekDay\<close>
  (0 is Sunday; the epoch was a Thursday), \<open>MakeDay\<close>, \<open>MakeTime\<close> and \<open>MakeDate\<close>.
\<close>

definition msPerDay :: int where
  "msPerDay = 86400000"

definition Day :: "int \<Rightarrow> int" where
  "Day t = t div msPerDay"

definition TimeWithinDay :: "int \<Rightarrow> int" where
  "TimeWithinDay t = t mod msPerDay"

definition DayFromYear :: "int \<Rightarrow> int" where
  "DayFromYear y =
     365 * (y - 1970) + (y - 1969) div 4 - (y - 1901) div 100 + (y - 1601) div 400"

definition InLeapYear :: "int \<Rightarrow> bool" where
  "InLeapYear y = (y mod 4 = 0 \<and> (y mod 100 \<noteq> 0 \<or> y mod 400 = 0))"

text \<open>
  \<open>YearFromDay d\<close> is the year \<open>y\<close> with \<open>DayFromYear y \<le> d < DayFromYear (y + 1)\<close>:
  the estimate from the mean year length of 146097/400 days is off by at most one
  (\<open>YearFromDay_bounds\<close> below).
\<close>

definition YearFromDay :: "int \<Rightarrow> int" where
  "YearFromDay d =
     (let y = 1970 + (400 * d) div 146097 in
      if d < DayFromYear y then y - 1
      else if DayFromYear (y + 1) \<le> d then y + 1
      else y)"

definition YearFromTime :: "int \<Rightarrow> int" where
  "YearFromTime t = YearFromDay (Day t)"

definition month_lengths :: "int \<Rightarrow> nat list" where
  "month_lengths y =
     [31, if InLeapYear y then 29 else 28, 31, 30, 31, 30, 31, 31, 30, 31, 30, 31]"

text \<open>
  The month (from 0, as \<open>MonthFromTime\<close> counts) and the day of the month (from 1, as
  \<open>DateFromTime\<close>) of the day numbered \<open>d\<close> within its year, \<open>ls\<close> being the lengths of
  the months from month \<open>m\<close> on.
\<close>

fun month_and_date :: "nat list \<Rightarrow> nat \<Rightarrow> nat \<Rightarrow> nat \<times> nat" where
  "month_and_date [] m d = (m, d + 1)"
| "month_and_date (l # ls) m d = (if d < l then (m, d + 1) else month_and_date ls (m + 1) (d - l))"

definition DayWithinYear :: "int \<Rightarrow> nat" where
  "DayWithinYear t = nat (Day t - DayFromYear (YearFromTime t))"

definition MonthFromTime :: "int \<Rightarrow> nat" where
  "MonthFromTime t = fst (month_and_date (month_lengths (YearFromTime t)) 0 (DayWithinYear t))"

definition DateFromTime :: "int \<Rightarrow> nat" where
  "DateFromTime t = snd (month_and_date (month_lengths (YearFromTime t)) 0 (DayWithinYear t))"

definition WeekDay :: "int \<Rightarrow> nat" where
  "WeekDay t = nat ((Day t + 4) mod 7)"

text \<open>\<open>MakeDay\<close> for a month from 0 to 11 and a day of the month from 1.\<close>

definition MakeDay :: "int \<Rightarrow> nat \<Rightarrow> nat \<Rightarrow> int" where
  "MakeDay y m dt = DayFromYear y + int (sum_list (take m (month_lengths y))) + int dt - 1"

definition MakeTime :: "nat \<Rightarrow> nat \<Rightarrow> nat \<Rightarrow> nat \<Rightarrow> int" where
  "MakeTime h mi sec ms = int h * 3600000 + int mi * 60000 + int sec * 1000 + int ms"

definition MakeDate :: "int \<Rightarrow> int \<Rightarrow> int" where
  "MakeDate day time = day * msPerDay + time"

subsection \<open>Parsing\<close>

text \<open>
  \<open>new Date(string)\<close> parses as \<open>Date.parse\<close> does. ECMAScript fixes the result for a
  string in its date-time format with legal field values, and leaves every other string to
  the implementation. \<open>iso_parse\<close> reads the form \<open>YYYY-MM-DDTHH:mm:ssZ\<close>, with or without
  the milliseconds \<open>.sss\<close> before the \<open>Z\<close> (so everything \<open>toISOString\<close> writes for the
  years 0 to 9999); what it does not read is left to the host's own parser, a field of
  \<open>host\<close>, about which nothing is assumed.
\<close>

definition is_digit :: "char \<Rightarrow> bool" where
  "is_digit c = (48 \<le> (of_char c :: nat) \<and> (of_char c :: nat) \<le> 57)"

fun parse_digits :: "string \<Rightarrow> nat \<Rightarrow> nat option" where
  "parse_digits [] acc = Some acc"
| "parse_digits (c # cs) acc =
     (if is_digit c then parse_digits cs (10 * acc + (of_char c - 48)) else None)"

definition field :: "nat \<Rightarrow> nat \<Rightarrow> string \<Rightarrow> nat option" where
  "field i n s = parse_digits (take n (drop i s)) 0"

definition iso_shape :: "string \<Rightarrow> bool" where
  "iso_shape s =
     ((length s = 20 \<or> (length s = 24 \<and> s ! 19 = CHR ''.'')) \<and>
      s ! 4 = CHR ''-'' \<and> s ! 7 = CHR ''-'' \<and> s ! 10 = CHR ''T'' \<and>
      s ! 13 = CHR '':'' \<and> s ! 16 = CHR '':'' \<and> last s = CHR ''Z'')"

definition iso_parse :: "string \<Rightarrow> int option" where
  "iso_parse s =
     (if iso_shape s then
        (case (field 0 4 s, field 5 2 s, field 8 2 s, field 11 2 s, field 14 2 s, field 17 2 s,
               if length s = 24 then field 20 3 s else Some 0) of
           (Some y, Some mo, Some d, Some h, Some mi, Some sec, Some ms) \<Rightarrow>
             if 1 \<le> mo \<and> mo \<le> 12 \<and> 1 \<le> d \<and> d \<le> month_lengths (int y) ! (mo - 1) \<and>
                h \<le> 23 \<and> mi \<le> 59 \<and> sec \<le> 59
             then Some (MakeDate (MakeDay (int y) (mo - 1) d) (MakeTime h mi sec ms))
             else None
         | _ \<Rightarrow> None)
      else None)"

text \<open>
  What the program takes from the JavaScript host it runs on: the offset of local time
  from UTC, in milliseconds, at a given time value (the host's time zone), and the host's
  own parser for date strings outside the format above.
\<close>

record host =
  LocalTZA :: "int \<Rightarrow> int"
  fallback_parse :: "string \<Rightarrow> int option"

definition Date_parse :: "host \<Rightarrow> string \<Rightarrow> int option" where
  "Date_parse h s = (case iso_parse s of Some t \<Rightarrow> Some t | None \<Rightarrow> fallback_parse h s)"

subsection \<open>Formatting\<close>

definition weekday_names :: "string list" where
  "weekday_names =
     [''Sunday'', ''Monday'', ''Tuesday'', ''Wednesday'', ''Thursday'', ''Friday'', ''Saturday'']"

definition month_names :: "string list" where
  "month_names =
     [''January'', ''February'', ''March'', ''April'', ''May'', ''June'', ''July'', ''August'',
      ''September'', ''October'', ''November'', ''December'']"

text \<open>
  \<open>toLocaleDateString('en-US', {weekday: 'long', year: 'numeric', month: 'long', day:
  'numeric'})\<close>: \<open>"Invalid Date"\<close> for an invalid Date; otherwise the date of the local time
  in the pattern the en-US locale has for these fields, \<open>weekday, month day, year\<close>. No
  time zone is passed, so the host's is used. The year field is the year of the era, which
  is the year itself from year 1 on.
\<close>

definition year_of_era :: "int \<Rightarrow> nat" where
  "year_of_era y = (if 1 \<le> y then nat y else nat (1 - y))"

definition long_date :: "int \<Rightarrow> string" where
  "long_date t =
     weekday_names ! WeekDay t @ '', '' @ month_names ! MonthFromTime t @ '' '' @
     digits (DateFromTime t) @ '', '' @ digits (year_of_era (YearFromTime t))"

definition toLocaleDateString :: "host \<Rightarrow> int option \<Rightarrow> string" where
  "toLocaleDateString h d =
     (case d of None \<Rightarrow> ''Invalid Date'' | Some t \<Rightarrow> long_date (t + LocalTZA h t))"

text \<open>
  \<open>toISOString\<close> of a valid Date: UTC fields, the year in four digits from 0 to 9999 and
  as a sign and six digits outside.
\<close>

definition iso_year :: "int \<Rightarrow> string" where
  "iso_year y =
     (if 0 \<le> y \<and> y \<le> 9999 then pad 4 (nat y)
      else if y < 0 then ''-'' @ pad 6 (nat (- y))
      else ''+'' @ pad 6 (nat y))"

definition toISOString :: "int \<Rightarrow> string" where
  "toISOString t =
     (let ms = nat (TimeWithinDay t) in
      iso_year (YearFromTime t) @ ''-'' @ pad 2 (MonthFromTime t + 1) @ ''-'' @
      pad 2 (DateFromTime t) @ ''T'' @ pad 2 (ms div 3600000) @ '':'' @
      pad 2 (ms div 60000 mod 60) @ '':'' @ pad 2 (ms div 1000 mod 60) @ ''.'' @
      pad 3 (ms mod 1000) @ ''Z'')"

section \<open>The backend: server.js\<close>

subsection \<open>createSystemPrompt\<close>

text \<open>
  A location is an object with the properties \<open>lat\<close> and \<open>lon\<close>; a property that is
  absent (or null) is \<open>None\<close>, and so is a location that is null. A date is a string, or
  \<open>None\<close> when the request carries none.
\<close>

record location =
  lat :: "jsnum option"
  lon :: "jsnum option"

text \<open>
  \<open>date ? new Date(date).toLocaleDateString('en-US', {...}) : 'Not available'\<close>: a string
  is truthy unless it is empty.
\<close>

definition formattedDate :: "host \<Rightarrow> string option \<Rightarrow> string" where
  "formattedDate h date =
     (case date of
        None \<Rightarrow> ''Not available''
      | Some s \<Rightarrow> if s = [] then ''Not available'' else toLocaleDateString h (Date_parse h s))"

text \<open>
  \<open>if (location && location.lat && location.lon)\<close>: each coordinate has to be present
  and truthy.
\<close>

definition locationInfo :: "location option \<Rightarrow> string" where
  \<open>locationInfo loc =
     (case loc of
        None \<Rightarrow> ''User's location is not available.''
      | Some l \<Rightarrow>
          (case (lat l, lon l) of
             (Some a, Some b) \<Rightarrow>
               if truthy_num a \<and> truthy_num b
               then ''User's Approximate Location (Latitude, Longitude): '' @
                    Number_toString a @ '', '' @ Number_toString b
               else ''User's location is not available.''
           | _ \<Rightarrow> ''User's location is not available.''))\<close>

text \<open>
  The template literal that \<open>createSystemPrompt\<close> returns, in three parts: up to
  \<open>${formattedDate}\<close>, between it and \<open>${locationInfo}\<close>, and the rest.
\<close>

definition prompt_head :: string where
  \<open>prompt_head =
     nl @
     ''    You are the "AgriShield AI Farming Assistant," a specialized AI expert for Indian farmers. Your persona is confident, knowledgeable, and highly practical.'' @
     nl @
     nl @
     ''    --- IMPORTANT CONTEXT (FOR YOUR USE ONLY) ---'' @
     nl @
     ''    Current Date: ''\<close>

definition prompt_middle :: string where
  \<open>prompt_middle =
     nl @
     ''    ''\<close>

definition prompt_tail :: string where
  \<open>prompt_tail =
     nl @
     ''    You MUST use this location and date to provide highly relevant, localized, and timely advice.'' @
     nl @
     ''    ---'' @
     nl @
     nl @
     ''    --- RESPONSE MANDATES ---'' @
     nl @
     ''    1.  **PRIVACY RULE:** You MUST NOT repeat the user's latitude and longitude coordinates in your response. Refer to their location in general terms only (e.g., "in your area," "for your region," "given your local conditions").'' @
     nl @
     ''    2.  **Be Specific and Actionable:** When asked for a recommendation, you MUST provide a list of specific, named crop varieties first. Do NOT give generic advice.'' @
     nl @
     ''    3.  **Expert First, Disclaimer Second:** Provide your expert recommendations directly. Only after giving specific advice can you add a concluding sentence suggesting the user consult a local extension office.'' @
     nl @
     ''    4.  **Use Clear Formatting:** Always use bullet points (*) for lists and bold text (**) for important terms.'' @
     nl @
     ''    5.  **Be Proactive:** End your responses by asking a follow-up question to encourage further interaction.'' @
     nl @
     ''    ---'' @
     nl @
     ''     '' @
     nl @
     ''    --- CRITICAL LANGUAGE RULE ---'' @
     nl @
     ''    You must respond ONLY in the language the user has selected. Do not mix languages.'' @
     nl @
     ''  ''\<close>

definition createSystemPrompt :: "host \<Rightarrow> location option \<Rightarrow> string option \<Rightarrow> string" where
  "createSystemPrompt h loc date =
     prompt_head @ formattedDate h date @ prompt_middle @ locationInfo loc @ prompt_tail"

subsection \<open>The route POST /api/chat\<close>

text \<open>
  The request body, with the types the interface gives its fields, and the messages the
  handler submits. The upstream client \<open>groq.chat.completions.create\<close> is a parameter of
  the handler: it returns a completion, or throws (here \<open>Inl\<close>) an error.
\<close>

record chat_request =
  req_message :: string
  req_language :: string
  req_location :: "location option"
  req_date :: "string option"

record chat_message =
  role :: string
  content :: string

record completion_params =
  params_messages :: "chat_message list"
  model :: string
  temperature :: jsnum
  max_tokens :: nat

record completion_message =
  completion_content :: "string option"

record choice =
  choice_message :: "completion_message option"

record chat_completion =
  choices :: "choice list"

datatype js_error = Error string

fun error_message :: "js_error \<Rightarrow> string" where
  "error_message (Error m) = m"

record http_response =
  status :: nat
  body :: "(string \<times> string) list"

text \<open>
  What one run of the handler does: the calls it makes upstream, what it writes with
  \<open>console.error\<close>, and the response it sends.
\<close>

record handled =
  upstream_calls :: "completion_params list"
  console_error :: "(string \<times> js_error) list"
  response :: http_response

definition chat_messages :: "host \<Rightarrow> chat_request \<Rightarrow> chat_message list" where
  "chat_messages h req =
     [\<lparr>role = ''system'', content = createSystemPrompt h (req_location req) (req_date req)\<rparr>,
      \<lparr>role = ''user'',
       content = ''I am an Indian Farmer. My preferred language is: '' @ req_language req @ ''.''\<rparr>,
      \<lparr>role = ''assistant'',
       content = ''Namaste! I am ready to help you in '' @ req_language req @ ''.''\<rparr>,
      \<lparr>role = ''user'', content = req_message req\<rparr>]"

definition create_params :: "host \<Rightarrow> chat_request \<Rightarrow> completion_params" where
  "create_params h req =
     \<lparr>params_messages = chat_messages h req, model = ''llama-3.3-70b-versatile'',
      temperature = Dec False 7 0, max_tokens = 1000\<rparr>"

text \<open>
  \<open>completion.choices[0]?.message?.content || "No response generated"\<close>: the fallback
  is taken when there is no first choice, when it has no message, and when the content is
  null or the empty string.
\<close>

definition completion_text :: "chat_completion \<Rightarrow> string" where
  "completion_text completion =
     (case choices completion of
        [] \<Rightarrow> ''No response generated''
      | c # _ \<Rightarrow>
          (case choice_message c of
             None \<Rightarrow> ''No response generated''
           | Some m \<Rightarrow>
               (case completion_content m of
                  None \<Rightarrow> ''No response generated''
                | Some t \<Rightarrow> if t = [] then ''No response generated'' else t)))"

definition chat_handler ::
  "host \<Rightarrow> (completion_params \<Rightarrow> js_error + chat_completion) \<Rightarrow> chat_request \<Rightarrow> handled" where
  "chat_handler h groq req =
     (let params = create_params h req in
      case groq params of
        Inr completion \<Rightarrow>
          \<lparr>upstream_calls = [params], console_error = [],
           response = \<lparr>status = 200, body = [(''response'', completion_text completion)]\<rparr>\<rparr>
      | Inl error \<Rightarrow>
          \<lparr>upstream_calls = [params], console_error = [(''Error with Groq API:'', error)],
           response =
             \<lparr>status = 500,
              body = [(''error'', ''Failed to get response from AI''),
                      (''details'', error_message error)]\<rparr>\<rparr>)"

section \<open>The client: ChatWindow.tsx\<close>

text \<open>
  The component's state is what its \<open>useState\<close> hooks hold, with the \<open>location\<close> prop.
  A file has a name, a MIME type and its bytes; a Date is its time value.
\<close>

record File =
  name :: string
  mime_type :: string
  bytes :: string

datatype attachment_kind = Image | Document

record AttachedFile =
  file_obj :: File
  preview :: "string option"
  kind :: attachment_kind

record Message =
  msg_id :: string
  msg_text :: string
  isBot :: bool
  timestamp :: int
  attachments :: "AttachedFile list option"

record ChatWindow =
  messages :: "Message list"
  inputValue :: string
  isTyping :: bool
  language :: string
  attachedFiles :: "AttachedFile list"
  props_location :: "location option"

record fetch_request =
  url :: string
  http_method :: string
  headers :: "(string \<times> string) list"
  json_body :: chat_request

definition SUGGESTED_QUESTIONS :: "string list" where
  "SUGGESTED_QUESTIONS =
     [''Best flood-resistant rice?'', ''Will it rain tomorrow?'', ''Current Wheat prices?'']"

definition initialMessages :: "int \<Rightarrow> Message list" where
  \<open>initialMessages t =
     [\<lparr>msg_id = ''1'',
       msg_text = ''Namaste! I'm your AgriShield AI. I can analyze your soil, predict weather risks, and suggest crops. How can I help your farm today?'',
       isBot = True, timestamp = t, attachments = None\<rparr>]\<close>

definition initial_state :: "int \<Rightarrow> location option \<Rightarrow> ChatWindow" where
  "initial_state t loc =
     \<lparr>messages = initialMessages t, inputValue = [], isTyping = False, language = ''English'',
      attachedFiles = [], props_location = loc\<rparr>"

text \<open>
  \<open>handleSendMessage\<close> up to its \<open>await fetch\<close>. \<open>clock n\<close> is what the \<open>n\<close>-th reading
  of the clock in the call returns (\<open>Date.now()\<close>, \<open>new Date()\<close>). The result is the state
  after the four state updates and the request issued; \<open>None\<close> is the early return, which
  issues none. The body is the object handed to \<open>JSON.stringify\<close>.
\<close>

definition messageText :: "string \<Rightarrow> AttachedFile list \<Rightarrow> string" where
  "messageText t fs =
     (if fs \<noteq> [] then
        (let fileNames = join '', '' (map (\<lambda>a. name (file_obj a)) fs) in
         if trim t \<noteq> [] then trim t @ nl @ ''[Attached files: '' @ fileNames @ '']''
         else trim t @ ''[Attached files: '' @ fileNames @ '']'')
      else trim t)"

definition handleSendMessage ::
  "ChatWindow \<Rightarrow> (nat \<Rightarrow> int) \<Rightarrow> string \<Rightarrow> ChatWindow \<times> fetch_request option" where
  "handleSendMessage st clock t =
     (if trim t = [] \<and> attachedFiles st = [] then (st, None)
      else
        (let userMessage =
               \<lparr>msg_id = int_toString (clock 0), msg_text = trim t, isBot = False,
                timestamp = clock 1,
                attachments = (if attachedFiles st \<noteq> [] then Some (attachedFiles st) else None)\<rparr>
         in (st\<lparr>messages := messages st @ [userMessage], inputValue := [],
                attachedFiles := [], isTyping := True\<rparr>,
             Some \<lparr>url = ''http://localhost:3001/api/chat'', http_method = ''POST'',
                   headers = [(''Content-Type'', ''application/json'')],
                   json_body =
                     \<lparr>req_message = messageText t (attachedFiles st),
                      req_language = language st, req_location = props_location st,
                      req_date = Some (toISOString (clock 2))\<rparr>\<rparr>)))"

text \<open>
  How the awaited exchange ends: \<open>fetch\<close> rejects, or a response arrives, \<open>ok\<close> or not,
  whose body \<open>json()\<close> parses to an object with the string \<open>response\<close> (the backend's 200
  body always has one) or fails to parse (\<open>None\<close>). The rest of \<open>handleSendMessage\<close> runs
  on the state of that moment, since its updates are functional (\<open>prev => [...prev, m]\<close>).
\<close>

datatype fetch_outcome = Rejected | Responded bool "string option"

definition handleSendMessage_settled ::
  "ChatWindow \<Rightarrow> (nat \<Rightarrow> int) \<Rightarrow> fetch_outcome \<Rightarrow> ChatWindow" where
  \<open>handleSendMessage_settled st clock outcome =
     (let errorResponse =
            \<lparr>msg_id = int_toString (clock 0) @ ''-error'',
             msg_text = ''I'm having trouble connecting to the satellite. Please check your internet connection.'',
             isBot = True, timestamp = clock 1, attachments = None\<rparr>
      in case outcome of
           Responded True (Some r) \<Rightarrow>
             st\<lparr>messages :=
                  messages st @
                  [\<lparr>msg_id = int_toString (clock 0) @ ''-bot'', msg_text = r, isBot = True,
                    timestamp = clock 1, attachments = None\<rparr>],
                isTyping := False\<rparr>
         | _ \<Rightarrow> st\<lparr>messages := messages st @ [errorResponse], isTyping := False\<rparr>)\<close>

text \<open>
  The three places of the rendered component that call \<open>handleSendMessage\<close>: the input's
  \<open>onKeyDown\<close> (Enter without Shift), the send button, which is disabled while there is
  nothing to send or \<open>isTyping\<close> holds, and the suggested questions, rendered while the
  transcript has at most two messages and \<open>isTyping\<close> does not hold.
\<close>

datatype ui_event = KeyDown string bool | ClickSend | ClickSuggested nat

definition send_disabled :: "ChatWindow \<Rightarrow> bool" where
  "send_disabled st = ((trim (inputValue st) = [] \<and> attachedFiles st = []) \<or> isTyping st)"

definition suggestions_shown :: "ChatWindow \<Rightarrow> bool" where
  "suggestions_shown st = (length (messages st) \<le> 2 \<and> \<not> isTyping st)"

definition on_event ::
  "ChatWindow \<Rightarrow> (nat \<Rightarrow> int) \<Rightarrow> ui_event \<Rightarrow> ChatWindow \<times> fetch_request option" where
  "on_event st clock ev =
     (case ev of
        KeyDown key shiftKey \<Rightarrow>
          if key = ''Enter'' \<and> \<not> shiftKey then handleSendMessage st clock (inputValue st)
          else (st, None)
      | ClickSend \<Rightarrow>
          if send_disabled st then (st, None) else handleSendMessage st clock (inputValue st)
      | ClickSuggested i \<Rightarrow>
          if suggestions_shown st \<and> i < length SUGGESTED_QUESTIONS
          then handleSendMessage st clock (SUGGESTED_QUESTIONS ! i)
          else (st, None))"

section \<open>Concrete inputs\<close>

text \<open>
  A host on UTC whose own date parser accepts nothing beyond the ISO format, a location
  (12.9716, 77.5946), a clock that advances by a millisecond per reading from
  2024-06-01T00:00:00Z, and states of the chat window: a fresh one with a question typed,
  the one after that question was sent and before the exchange ended, and the latter with
  a second question typed.
\<close>

definition utc_host :: host where
  "utc_host = \<lparr>LocalTZA = (\<lambda>t. 0), fallback_parse = (\<lambda>s. None)\<rparr>"

definition bengaluru :: location where
  "bengaluru = \<lparr>lat = Some (Dec False 129716 2), lon = Some (Dec False 775946 2)\<rparr>"

definition clock0 :: "nat \<Rightarrow> int" where
  "clock0 n = 1717200000000 + int n"

definition typed_state :: ChatWindow where
  "typed_state = (initial_state 1717199990000 None)\<lparr>inputValue := ''Will it rain tomorrow?''\<rparr>"

definition in_flight_state :: ChatWindow where
  "in_flight_state = fst (handleSendMessage typed_state clock0 ''Will it rain tomorrow?'')"

definition retyped_state :: ChatWindow where
  "retyped_state = in_flight_state\<lparr>inputValue := ''And the day after?''\<rparr>"

definition leaf_photo :: AttachedFile where
  "leaf_photo =
     \<lparr>file_obj = \<lparr>name = ''leaf.png'', mime_type = ''image/png'', bytes = ''PNG-bytes''\<rparr>,
      preview = Some ''data:image/png;base64,UE5H'', kind = Image\<rparr>"

definition soil_report :: AttachedFile where
  "soil_report =
     \<lparr>file_obj = \<lparr>name = ''soil.pdf'', mime_type = ''application/pdf'', bytes = ''PDF-bytes''\<rparr>,
      preview = None, kind = Document\<rparr>"

definition quota_exceeded :: "completion_params \<Rightarrow> js_error + chat_completion" where
  "quota_exceeded p = Inl (Error ''quota exceeded'')"

definition no_choices :: "completion_params \<Rightarrow> js_error + chat_completion" where
  "no_choices p = Inr \<lparr>choices = []\<rparr>"

definition rice_request :: chat_request where
  "rice_request =
     \<lparr>req_message = ''Best flood-resistant rice?'', req_language = ''English'',
      req_location = None, req_date = Some ''2024-06-01T00:00:00Z''\<rparr>"

section \<open>Auxiliary facts\<close>

lemmas calendar_defs =
  long_date_def WeekDay_def MonthFromTime_def DateFromTime_def YearFromTime_def
  DayWithinYear_def Day_def msPerDay_def YearFromDay_def DayFromYear_def month_lengths_def
  InLeapYear_def weekday_names_def month_names_def year_of_era_def digit_char_def

lemmas parse_defs =
  iso_parse_def iso_shape_def field_def is_digit_def MakeDate_def MakeDay_def MakeTime_def
  month_lengths_def InLeapYear_def DayFromYear_def msPerDay_def

lemma dropWhile_all_iff: "(\<forall>x\<in>set (dropWhile P xs). P x) \<longleftrightarrow> (\<forall>x\<in>set xs. P x)"
  by (induction xs) auto

lemma trim_Nil_iff: "trim t = [] \<longleftrightarrow> (\<forall>c\<in>set t. is_whitespace c)"
  by (simp add: trim_def dropWhile_eq_Nil_conv dropWhile_all_iff)

lemma div_bounds: "0 < n \<Longrightarrow> n * (x div n) \<le> x \<and> x < n * (x div n) + n" for x n :: int
  using mult_div_mod_eq [of n x] pos_mod_sign [of n x] pos_mod_bound [of n x] by linarith

lemma DayFromYear_abc:
  obtains a b c :: int where "DayFromYear y = 365 * (y - 1970) + a - b + c"
    and "4 * a \<le> y - 1969" and "y - 1969 < 4 * a + 4"
    and "100 * b \<le> y - 1901" and "y - 1901 < 100 * b + 100"
    and "400 * c \<le> y - 1601" and "y - 1601 < 400 * c + 400"
  using div_bounds [of 4 "y - 1969"] div_bounds [of 100 "y - 1901"]
    div_bounds [of 400 "y - 1601"]
  by (simp add: DayFromYear_def)

lemma DayFromYear_upper: "400 * DayFromYear y \<le> 146097 * (y - 1970) + 589"
proof -
  obtain a b c :: int where "DayFromYear y = 365 * (y - 1970) + a - b + c"
    and "4 * a \<le> y - 1969" and "y - 1901 < 100 * b + 100" and "400 * c \<le> y - 1601"
    by (rule DayFromYear_abc)
  then show ?thesis
    by (simp add: algebra_simps)
qed

lemma DayFromYear_lower: "146097 * (y - 1970) - 506 \<le> 400 * DayFromYear y"
proof -
  obtain a b c :: int where "DayFromYear y = 365 * (y - 1970) + a - b + c"
    and "y - 1969 < 4 * a + 4" and "100 * b \<le> y - 1901" and "y - 1601 < 400 * c + 400"
    by (rule DayFromYear_abc)
  then show ?thesis
    by (simp add: algebra_simps)
qed

text \<open>
  \<open>YearFromDay\<close> is ECMAScript's year of a day: the day lies in the year it returns.
\<close>

lemma YearFromDay_bounds:
  "DayFromYear (YearFromDay d) \<le> d \<and> d < DayFromYear (YearFromDay d + 1)"
proof -
  define q where "q = (400 * d) div 146097"
  define y where "y = 1970 + q"
  have q: "146097 * q \<le> 400 * d" "400 * d < 146097 * q + 146097"
    using div_bounds [of 146097 "400 * d"] by (simp_all add: q_def)
  have lo: "DayFromYear (y - 1) \<le> d"
    using DayFromYear_upper [of "y - 1"] q unfolding y_def by (simp add: algebra_simps)
  have hi: "d < DayFromYear (y + 2)"
    using DayFromYear_lower [of "y + 2"] q unfolding y_def by (simp add: algebra_simps)
  have "YearFromDay d =
      (if d < DayFromYear y then y - 1 else if DayFromYear (y + 1) \<le> d then y + 1 else y)"
    by (simp add: YearFromDay_def y_def q_def Let_def)
  then show ?thesis
    using lo hi by (auto simp: add.commute)
qed

lemma div_succ:
  fixes x n :: int
  assumes "0 < n"
  shows "(x + 1) div n = x div n + (if n dvd x + 1 then 1 else 0)"
proof (cases "x mod n + 1 = n")
  case True
  have "n * (x div n + 1) = n * (x div n) + n"
    by (simp add: algebra_simps)
  with True have e: "x + 1 = n * (x div n + 1) + 0"
    using mult_div_mod_eq [of n x] by linarith
  have "(x + 1) div n = x div n + 1"
    using int_div_pos_eq [OF e] assms by simp
  moreover have "n dvd x + 1"
    using e by (metis add.right_neutral dvd_triv_left)
  ultimately show ?thesis
    by simp
next
  case False
  then have r: "0 \<le> x mod n + 1" "x mod n + 1 < n"
    using assms pos_mod_sign [of n x] pos_mod_bound [of n x] by linarith+
  have e: "x + 1 = n * (x div n) + (x mod n + 1)"
    by simp
  have "(x + 1) div n = x div n"
    using e r by (rule int_div_pos_eq)
  moreover have "(x + 1) mod n = x mod n + 1"
    using e r by (rule int_mod_pos_eq)
  moreover have "0 < x mod n + 1"
    using assms pos_mod_sign [of n x] by linarith
  ultimately have "\<not> n dvd x + 1"
    by (simp add: dvd_eq_mod_eq_0)
  moreover note \<open>(x + 1) div n = x div n\<close>
  ultimately show ?thesis
    by simp
qed

lemma leap_steps:
  "(y - 1968) div 4 - (y - 1969) div 4 = (if 4 dvd y then 1 else 0)"
  "(y - 1900) div 100 - (y - 1901) div 100 = (if 100 dvd y then 1 else 0)"
  "(y - 1600) div 400 - (y - 1601) div 400 = (if 400 dvd y then 1 else 0)"
  for y :: int
  using div_succ [of 4 "y - 1969"] div_succ [of 100 "y - 1901"] div_succ [of 400 "y - 1601"]
  by (simp_all add: dvd_diff_left_iff)

text \<open>A year has 365 days, and 366 when it is a leap year.\<close>

lemma DaysInYear:
  "DayFromYear (y + 1) = DayFromYear y + (if InLeapYear y then 366 else 365)"
proof -
  have "DayFromYear (y + 1) - DayFromYear y =
      365 + ((y - 1968) div 4 - (y - 1969) div 4) - ((y - 1900) div 100 - (y - 1901) div 100) +
      ((y - 1600) div 400 - (y - 1601) div 400)"
    by (simp add: DayFromYear_def)
  then have d: "DayFromYear (y + 1) - DayFromYear y =
      365 + (if 4 dvd y then 1 else 0) - (if 100 dvd y then 1 else 0) +
      (if 400 dvd y then 1 else 0)"
    by (simp only: leap_steps)
  have l: "InLeapYear y \<longleftrightarrow> 4 dvd y \<and> (\<not> 100 dvd y \<or> 400 dvd y)"
    by (simp add: InLeapYear_def dvd_eq_mod_eq_0)
  have i: "100 dvd y \<Longrightarrow> 4 dvd y" "400 dvd y \<Longrightarrow> 100 dvd y"
    by (auto elim: dvd_trans [rotated])
  show ?thesis
  proof (cases "InLeapYear y")
    case True
    then have "DayFromYear (y + 1) - DayFromYear y = 366"
      using d l i by (cases "100 dvd y"; cases "400 dvd y") auto
    with True show ?thesis by simp
  next
    case False
    then have "DayFromYear (y + 1) - DayFromYear y = 365"
      using d l i by (cases "4 dvd y"; cases "400 dvd y") auto
    with False show ?thesis by simp
  qed
qed

lemma month_and_date_range:
  "d < sum_list ls \<Longrightarrow> \<forall>l\<in>set ls. l \<le> k \<Longrightarrow>
   fst (month_and_date ls m d) < m + length ls \<and>
   1 \<le> snd (month_and_date ls m d) \<and> snd (month_and_date ls m d) \<le> k"
proof (induction ls m d rule: month_and_date.induct)
  case (1 m d)
  then show ?case by simp
next
  case (2 l ls m d)
  show ?case
  proof (cases "d < l")
    case True
    with 2 show ?thesis by auto
  next
    case False
    with 2 have "d - l < sum_list ls" and "\<forall>l\<in>set ls. l \<le> k" by simp_all
    with "2.IH" [OF False] False show ?thesis by simp
  qed
qed

lemma DayWithinYear_range: "DayWithinYear t < sum_list (month_lengths (YearFromTime t))"
proof -
  let ?y = "YearFromDay (Day t)"
  have s: "int (sum_list (month_lengths ?y)) = (if InLeapYear ?y then 366 else 365)"
    by (simp add: month_lengths_def)
  have "0 \<le> Day t - DayFromYear ?y" and "Day t - DayFromYear ?y < int (sum_list (month_lengths ?y))"
    using YearFromDay_bounds [of "Day t"] DaysInYear [of ?y] unfolding s by linarith+
  then show ?thesis
    unfolding DayWithinYear_def YearFromTime_def by linarith
qed

text \<open>
  So the fields of a date are in range: the look-ups of \<open>long_date\<close> in the tables of
  names never leave them.
\<close>

lemma calendar_ranges:
  "WeekDay t < 7" "MonthFromTime t < 12" "1 \<le> DateFromTime t" "DateFromTime t \<le> 31"
proof -
  show "WeekDay t < 7"
    by (simp add: WeekDay_def nat_less_iff)
  have "length (month_lengths y) = 12" and "\<forall>l\<in>set (month_lengths y). l \<le> 31" for y
    by (simp_all add: month_lengths_def)
  with month_and_date_range [OF DayWithinYear_range, of t 31 0]
  show "MonthFromTime t < 12" "1 \<le> DateFromTime t" "DateFromTime t \<le> 31"
    by (simp_all add: MonthFromTime_def DateFromTime_def)
qed

lemma Day_within: "0 \<le> off \<Longrightarrow> off < msPerDay \<Longrightarrow> Day (k * msPerDay + off) = k"
  by (simp add: Day_def msPerDay_def div_pos_pos_trivial)

lemma long_date_Day: "Day t = Day t' \<Longrightarrow> long_date t = long_date t'"
  by (simp add: long_date_def WeekDay_def MonthFromTime_def DateFromTime_def YearFromTime_def
      DayWithinYear_def)

lemma iso_parse_june: "iso_parse ''2024-06-01T00:00:00Z'' = Some 1717200000000"
  by (simp add: parse_defs)

lemma long_date_june: "long_date 1717200000000 = ''Saturday, June 1, 2024''"
  by (simp add: calendar_defs digits.simps)

lemma iso_parse_not_a_date: "iso_parse ''not-a-date'' = None"
  by (simp add: iso_parse_def iso_shape_def)

lemma prompt_location_line:
  "sublist (locationInfo loc) (createSystemPrompt h loc date)"
proof -
  have "createSystemPrompt h loc date =
      (prompt_head @ formattedDate h date @ prompt_middle) @ locationInfo loc @ prompt_tail"
    by (simp add: createSystemPrompt_def)
  then show ?thesis
    by (simp only: sublist_appendI)
qed

lemma prompt_date_field:
  "sublist (''Current Date: '' @ formattedDate h date) (createSystemPrompt h loc date)"
proof -
  have "suffix ''Current Date: '' prompt_head"
    by (simp add: prompt_head_def suffix_def)
  then obtain zs where "prompt_head = zs @ ''Current Date: ''"
    by (auto simp: suffix_def)
  then have "createSystemPrompt h loc date =
      zs @ (''Current Date: '' @ formattedDate h date) @
      (prompt_middle @ locationInfo loc @ prompt_tail)"
    by (simp add: createSystemPrompt_def)
  then show ?thesis
    by (simp only: sublist_appendI)
qed

lemma locationInfo_present:
  "lat l = Some a \<Longrightarrow> lon l = Some b \<Longrightarrow> truthy_num a \<Longrightarrow> truthy_num b \<Longrightarrow>
   locationInfo (Some l) =
     ''User's Approximate Location (Latitude, Longitude): '' @
     Number_toString a @ '', '' @ Number_toString b"
  by (simp add: locationInfo_def)

lemma prompt_contains_coordinates:
  assumes "lat l = Some a" and "lon l = Some b" and "truthy_num a" and "truthy_num b"
  shows "sublist (''User's Approximate Location (Latitude, Longitude): '' @
            Number_toString a @ '', '' @ Number_toString b)
           (createSystemPrompt h (Some l) date)"
    and "sublist (Number_toString a) (createSystemPrompt h (Some l) date)"
    and "sublist (Number_toString b) (createSystemPrompt h (Some l) date)"
proof -
  let ?label = "''User's Approximate Location (Latitude, Longitude): ''"
  let ?line = "?label @ Number_toString a @ '', '' @ Number_toString b"
  let ?prompt = "createSystemPrompt h (Some l) date"
  have line: "locationInfo (Some l) = ?line"
    using assms by (rule locationInfo_present)
  show in_prompt: "sublist ?line ?prompt"
    using prompt_location_line [of "Some l" h date] by (simp only: line)
  have "sublist (Number_toString a) ?line"
    by (rule sublist_appendI)
  then show "sublist (Number_toString a) ?prompt"
    using in_prompt by (rule sublist_order.order.trans)
  have "?line = (?label @ Number_toString a @ '', '') @ Number_toString b"
    by simp
  then have "sublist (Number_toString b) ?line"
    by (simp only: sublist_append_leftI)
  then show "sublist (Number_toString b) ?prompt"
    using in_prompt by (rule sublist_order.order.trans)
qed

lemma formattedDate_absent:
  "date = None \<or> date = Some [] \<Longrightarrow> formattedDate h date = ''Not available''"
  by (auto simp: formattedDate_def)

lemma formattedDate_invalid:
  "s \<noteq> [] \<Longrightarrow> Date_parse h s = None \<Longrightarrow> formattedDate h (Some s) = ''Invalid Date''"
  by (simp add: formattedDate_def toLocaleDateString_def)

lemma formattedDate_valid:
  "s \<noteq> [] \<Longrightarrow> Date_parse h s = Some t \<Longrightarrow>
   formattedDate h (Some s) = long_date (t + LocalTZA h t)"
  by (simp add: formattedDate_def toLocaleDateString_def)

lemma iso_parse_nonempty: "iso_parse s = Some t \<Longrightarrow> s \<noteq> []"
  by (auto simp: iso_parse_def iso_shape_def split: if_splits)

lemma formattedDate_iso:
  assumes "iso_parse s = Some t"
  shows "formattedDate h (Some s) = long_date (t + LocalTZA h t)"
  using assms iso_parse_nonempty [OF assms]
  by (simp add: formattedDate_def toLocaleDateString_def Date_parse_def)

lemma formattedDate_june:
  assumes "0 \<le> LocalTZA h 1717200000000" and "LocalTZA h 1717200000000 < msPerDay"
  shows "formattedDate h (Some ''2024-06-01T00:00:00Z'') = ''Saturday, June 1, 2024''"
proof -
  let ?off = "LocalTZA h 1717200000000"
  have "Day (19875 * msPerDay + ?off) = 19875"
    using assms by (rule Day_within)
  moreover have "Day 1717200000000 = 19875"
    by (simp add: Day_def msPerDay_def)
  moreover have "19875 * msPerDay + ?off = 1717200000000 + ?off"
    by (simp add: msPerDay_def)
  ultimately have "Day (1717200000000 + ?off) = Day 1717200000000"
    by simp
  then have "long_date (1717200000000 + ?off) = long_date 1717200000000"
    by (rule long_date_Day)
  then have "long_date (1717200000000 + ?off) = ''Saturday, June 1, 2024''"
    by (simp only: long_date_june)
  then show ?thesis
    using formattedDate_iso [OF iso_parse_june, of h] by simp
qed

lemma handleSendMessage_sends:
  assumes "trim t \<noteq> [] \<or> attachedFiles st \<noteq> []"
  shows "handleSendMessage st clock t =
      (st\<lparr>messages := messages st @
             [\<lparr>msg_id = int_toString (clock 0), msg_text = trim t, isBot = False,
               timestamp = clock 1,
               attachments = (if attachedFiles st \<noteq> [] then Some (attachedFiles st) else None)\<rparr>],
           inputValue := [], attachedFiles := [], isTyping := True\<rparr>,
       Some \<lparr>url = ''http://localhost:3001/api/chat'', http_method = ''POST'',
             headers = [(''Content-Type'', ''application/json'')],
             json_body =
               \<lparr>req_message = messageText t (attachedFiles st),
                req_language = language st, req_location = props_location st,
                req_date = Some (toISOString (clock 2))\<rparr>\<rparr>)"
  using assms by (auto simp: handleSendMessage_def)

lemma settled_appends_one:
  "\<exists>b. messages (handleSendMessage_settled st clock outcome) = messages st @ [b] \<and> isBot b"
  by (cases outcome) (auto simp: handleSendMessage_settled_def Let_def split: bool.splits option.splits)

lemma settled_not_typing: "\<not> isTyping (handleSendMessage_settled st clock outcome)"
  by (cases outcome) (auto simp: handleSendMessage_settled_def Let_def split: bool.splits option.splits)

text \<open>
  Of the three callers of \<open>handleSendMessage\<close>, the button and the suggested questions
  do nothing while \<open>isTyping\<close> holds; the key handler sends whatever \<open>isTyping\<close> is.
\<close>

lemma click_guards_isTyping:
  "isTyping st \<Longrightarrow> on_event st clock ClickSend = (st, None)"
  "isTyping st \<Longrightarrow> on_event st clock (ClickSuggested i) = (st, None)"
  by (simp_all add: on_event_def send_disabled_def suggestions_shown_def)

lemma enter_ignores_isTyping:
  "trim (inputValue st) \<noteq> [] \<Longrightarrow>
   snd (on_event st clock (KeyDown ''Enter'' False)) \<noteq> None"
  by (simp add: on_event_def handleSendMessage_sends)

lemma trim_literal: "trim ''Will it rain tomorrow?'' = ''Will it rain tomorrow?''"
  by (simp add: trim_def is_whitespace_def)

section \<open>The claims\<close>

subsection \<open>The system prompt\<close>

text \<open>
  C1, as the code has it. The claim says the prompt never contains the coordinates; the
  code writes both into the prompt, in the line that \<open>locationInfo\<close> builds, whenever both
  are present and truthy. For a location with both coordinates truthy, and any date, the
  prompt contains the line \<open>User's Approximate Location (Latitude, Longitude): lat, lon\<close>,
  hence the decimal rendering of the latitude and that of the longitude.
\<close>

theorem C1_prompt_contains_coordinates:
  assumes "lat l = Some a" and "lon l = Some b" and "truthy_num a" and "truthy_num b"
  shows "sublist (''User's Approximate Location (Latitude, Longitude): '' @
            Number_toString a @ '', '' @ Number_toString b)
           (createSystemPrompt h (Some l) date) \<and>
         sublist (Number_toString a) (createSystemPrompt h (Some l) date) \<and>
         sublist (Number_toString b) (createSystemPrompt h (Some l) date)"
  using prompt_contains_coordinates [OF assms] by simp

theorem C1_witness:
  "truthy_num (Dec False 129716 2) \<and> truthy_num (Dec False 775946 2) \<and>
   sublist (''User's Approximate Location (Latitude, Longitude): '' @
      Number_toString (Dec False 129716 2) @ '', '' @ Number_toString (Dec False 775946 2))
     (createSystemPrompt utc_host (Some bengaluru) None) \<and>
   sublist (Number_toString (Dec False 129716 2))
     (createSystemPrompt utc_host (Some bengaluru) None) \<and>
   sublist (Number_toString (Dec False 775946 2))
     (createSystemPrompt utc_host (Some bengaluru) None)"
proof -
  have "lat bengaluru = Some (Dec False 129716 2)" and "lon bengaluru = Some (Dec False 775946 2)"
    by (simp_all add: bengaluru_def)
  moreover have "truthy_num (Dec False 129716 2)" and "truthy_num (Dec False 775946 2)"
    by simp_all
  ultimately show ?thesis
    using C1_prompt_contains_coordinates
      [of bengaluru "Dec False 129716 2" "Dec False 775946 2" utc_host None]
    by simp
qed

text \<open>
  C1 as stated fails: with the location (12.9716, 77.5946) the latitude is written
  \<open>12.9716\<close>, the longitude \<open>77.5946\<close>, and the prompt contains both strings.
\<close>

theorem C1_counterexample:
  "lat bengaluru = Some (Dec False 129716 2) \<and> lon bengaluru = Some (Dec False 775946 2) \<and>
   Number_toString (Dec False 129716 2) = ''12.9716'' \<and>
   Number_toString (Dec False 775946 2) = ''77.5946'' \<and>
   sublist ''12.9716''
     (createSystemPrompt utc_host (Some bengaluru) (Some ''2024-06-01T00:00:00Z'')) \<and>
   sublist ''77.5946''
     (createSystemPrompt utc_host (Some bengaluru) (Some ''2024-06-01T00:00:00Z''))"
proof -
  have la: "lat bengaluru = Some (Dec False 129716 2)"
    and lo: "lon bengaluru = Some (Dec False 775946 2)"
    by (simp_all add: bengaluru_def)
  have sa: "Number_toString (Dec False 129716 2) = ''12.9716''"
    and sb: "Number_toString (Dec False 775946 2) = ''77.5946''"
    by (simp_all add: magnitude_toString_def strip_zeros_def digits.simps digit_char_def)
  have "sublist (Number_toString (Dec False 129716 2))
      (createSystemPrompt utc_host (Some bengaluru) (Some ''2024-06-01T00:00:00Z''))"
    and "sublist (Number_toString (Dec False 775946 2))
      (createSystemPrompt utc_host (Some bengaluru) (Some ''2024-06-01T00:00:00Z''))"
    using la lo by (rule prompt_contains_coordinates; simp)+
  then show ?thesis
    using la lo sa sb by (simp only: simp_thms)
qed

text \<open>
  C5, at a failing input. The claim has a date that does not parse written as
  \<open>Not available\<close>, as an absent date is. The code tests the date for truthiness only,
  so its \<open>Not available\<close> branch takes the absent and the empty date, and a non-empty
  string goes to \<open>new Date\<close> whether it parses or not: \<open>not-a-date\<close> makes an invalid
  Date, \<open>toLocaleDateString\<close> writes it as \<open>Invalid Date\<close>, and the prompt reads
  \<open>Current Date: Invalid Date\<close>.
\<close>

theorem C5_unparseable_date:
  "Date_parse utc_host ''not-a-date'' = None \<and>
   formattedDate utc_host (Some ''not-a-date'') = ''Invalid Date'' \<and>
   formattedDate utc_host (Some ''not-a-date'') \<noteq> ''Not available'' \<and>
   formattedDate utc_host None = ''Not available'' \<and>
   formattedDate utc_host (Some []) = ''Not available'' \<and>
   sublist ''Current Date: Invalid Date''
     (createSystemPrompt utc_host None (Some ''not-a-date''))"
proof -
  have p: "Date_parse utc_host ''not-a-date'' = None"
    by (simp add: Date_parse_def iso_parse_not_a_date utc_host_def)
  then have f: "formattedDate utc_host (Some ''not-a-date'') = ''Invalid Date''"
    by (simp add: formattedDate_def toLocaleDateString_def)
  have "sublist (''Current Date: '' @ formattedDate utc_host (Some ''not-a-date''))
      (createSystemPrompt utc_host None (Some ''not-a-date''))"
    by (rule prompt_date_field)
  then have "sublist ''Current Date: Invalid Date''
      (createSystemPrompt utc_host None (Some ''not-a-date''))"
    by (simp add: f)
  then show ?thesis
    using p f by (simp add: formattedDate_def)
qed

text \<open>
  C6. When the location is null or lacks the \<open>lat\<close> or the \<open>lon\<close> coordinate, the
  location field is \<open>User's location is not available.\<close>; when both coordinates are present
  and truthy, it is the labelled coordinate line. The location field is the part of the
  prompt that \<open>locationInfo\<close> fills.
\<close>

theorem C6_locationInfo:
  \<open>(loc = None \<or> (\<exists>l. loc = Some l \<and> (lat l = None \<or> lon l = None)) \<longrightarrow>
      locationInfo loc = ''User's location is not available.'') \<and>
   (loc = Some l \<and> lat l = Some a \<and> lon l = Some b \<and> truthy_num a \<and> truthy_num b \<longrightarrow>
      locationInfo loc =
        ''User's Approximate Location (Latitude, Longitude): '' @
        Number_toString a @ '', '' @ Number_toString b) \<and>
   createSystemPrompt h loc date =
     prompt_head @ formattedDate h date @ prompt_middle @ locationInfo loc @ prompt_tail\<close>
  by (auto simp: locationInfo_def createSystemPrompt_def split: option.splits)

theorem C6_witness:
  \<open>locationInfo None = ''User's location is not available.'' \<and>
   locationInfo (Some \<lparr>lat = Some (Dec False 129716 2), lon = None\<rparr>) =
     ''User's location is not available.'' \<and>
   locationInfo (Some bengaluru) =
     ''User's Approximate Location (Latitude, Longitude): 12.9716, 77.5946''\<close>
proof -
  show ?thesis
    using C6_locationInfo [of None bengaluru "Dec False 129716 2" "Dec False 775946 2" utc_host None]
      C6_locationInfo [of "Some \<lparr>lat = Some (Dec False 129716 2), lon = None\<rparr>" bengaluru
        "Dec False 129716 2" "Dec False 775946 2" utc_host None]
      C6_locationInfo [of "Some bengaluru" bengaluru "Dec False 129716 2" "Dec False 775946 2"
        utc_host None]
    by (simp add: bengaluru_def magnitude_toString_def strip_zeros_def digits.simps digit_char_def)
qed

subsection \<open>The route POST /api/chat\<close>

text \<open>
  C3. When the upstream call throws an error with message \<open>m\<close>, the handler answers with
  status 500 and the body \<open>{error: "Failed to get response from AI", details: m}\<close>. The
  handler has a response for every outcome of the upstream call: the error is caught and
  logged, and nothing is thrown further.
\<close>

theorem C3_upstream_failure:
  assumes "groq (create_params h req) = Inl (Error m)"
  shows "response (chat_handler h groq req) =
           \<lparr>status = 500,
            body = [(''error'', ''Failed to get response from AI''), (''details'', m)]\<rparr> \<and>
         console_error (chat_handler h groq req) = [(''Error with Groq API:'', Error m)]"
  using assms by (simp add: chat_handler_def)

theorem C3_witness:
  "quota_exceeded (create_params utc_host rice_request) = Inl (Error ''quota exceeded'') \<and>
   response (chat_handler utc_host quota_exceeded rice_request) =
     \<lparr>status = 500,
      body = [(''error'', ''Failed to get response from AI''), (''details'', ''quota exceeded'')]\<rparr>"
proof -
  have q: "quota_exceeded (create_params utc_host rice_request) = Inl (Error ''quota exceeded'')"
    by (simp add: quota_exceeded_def)
  show ?thesis
    using C3_upstream_failure
        [where groq = quota_exceeded and h = utc_host and req = rice_request and m = "''quota exceeded''"] q
    by simp
qed

text \<open>
  C4. The handler calls upstream once, and the message list it passes has exactly four
  entries, in this order: the system message with the composed prompt, a user message
  declaring the language, an assistant message acknowledging it in that language, and the
  user message with the request's own text; nothing of earlier turns is in it.
\<close>

theorem C4_four_messages:
  "upstream_calls (chat_handler h groq req) = [create_params h req] \<and>
   params_messages (create_params h req) =
     [\<lparr>role = ''system'', content = createSystemPrompt h (req_location req) (req_date req)\<rparr>,
      \<lparr>role = ''user'',
       content = ''I am an Indian Farmer. My preferred language is: '' @ req_language req @ ''.''\<rparr>,
      \<lparr>role = ''assistant'',
       content = ''Namaste! I am ready to help you in '' @ req_language req @ ''.''\<rparr>,
      \<lparr>role = ''user'', content = req_message req\<rparr>] \<and>
   length (params_messages (create_params h req)) = 4"
  by (cases "groq (create_params h req)")
     (simp_all add: chat_handler_def create_params_def chat_messages_def)

text \<open>
  C10. When the upstream call succeeds and the completion has no choices, or its first
  choice has no message, or that message's content is null or empty, the handler answers
  with status 200 and the body \<open>{response: "No response generated"}\<close>.
\<close>

theorem C10_no_response_generated:
  assumes "groq (create_params h req) = Inr c"
    and "choices c = [] \<or>
         (\<exists>ch rest. choices c = ch # rest \<and>
            (choice_message ch = None \<or>
             (\<exists>m. choice_message ch = Some m \<and>
                (completion_content m = None \<or> completion_content m = Some []))))"
  shows "response (chat_handler h groq req) =
           \<lparr>status = 200, body = [(''response'', ''No response generated'')]\<rparr>"
proof -
  have "completion_text c = ''No response generated''"
    using assms(2) by (auto simp: completion_text_def)
  then show ?thesis
    using assms(1) by (simp add: chat_handler_def)
qed

theorem C10_witness:
  "no_choices (create_params utc_host rice_request) = Inr \<lparr>choices = []\<rparr> \<and>
   response (chat_handler utc_host no_choices rice_request) =
     \<lparr>status = 200, body = [(''response'', ''No response generated'')]\<rparr>"
proof -
  have q: "no_choices (create_params utc_host rice_request) = Inr \<lparr>choices = []\<rparr>"
    by (simp add: no_choices_def)
  show ?thesis
    using C10_no_response_generated
        [where groq = no_choices and h = utc_host and req = rice_request and c = "\<lparr>choices = []\<rparr>"] q
    by simp
qed

subsection \<open>The chat window\<close>

text \<open>
  C2, at a failing input. While the first exchange is in flight (\<open>isTyping\<close> holds, and
  the send button is disabled), the user types a second question and presses Enter: the
  key handler calls \<open>handleSendMessage\<close>, which does not look at \<open>isTyping\<close>, so a second
  request is issued and a second user message is appended.
\<close>

theorem C2_enter_while_in_flight:
  "isTyping retyped_state \<and> send_disabled retyped_state \<and>
   map_option (\<lambda>r. req_message (json_body r))
     (snd (on_event retyped_state clock0 (KeyDown ''Enter'' False))) =
     Some ''And the day after?'' \<and>
   map msg_text (messages retyped_state) =
     map msg_text (initialMessages 1717199990000) @ [''Will it rain tomorrow?''] \<and>
   map msg_text (messages (fst (on_event retyped_state clock0 (KeyDown ''Enter'' False)))) =
     map msg_text (initialMessages 1717199990000) @
     [''Will it rain tomorrow?'', ''And the day after?'']"
proof -
  have t1: "trim ''Will it rain tomorrow?'' = ''Will it rain tomorrow?''"
    and t2: "trim ''And the day after?'' = ''And the day after?''"
    by (simp_all add: trim_def is_whitespace_def)
  have s1: "in_flight_state =
      fst (handleSendMessage typed_state clock0 ''Will it rain tomorrow?'')"
    by (simp add: in_flight_state_def)
  have m1: "messages in_flight_state =
      initialMessages 1717199990000 @
      [\<lparr>msg_id = int_toString (clock0 0), msg_text = ''Will it rain tomorrow?'', isBot = False,
        timestamp = clock0 1, attachments = None\<rparr>]"
    and a1: "attachedFiles in_flight_state = []" and y1: "isTyping in_flight_state"
    by (simp_all add: s1 handleSendMessage_sends t1 typed_state_def initial_state_def)
  have r: "messages retyped_state = messages in_flight_state"
    "attachedFiles retyped_state = []" "isTyping retyped_state"
    "inputValue retyped_state = ''And the day after?''"
    by (simp_all add: retyped_state_def a1 y1)
  have e: "on_event retyped_state clock0 (KeyDown ''Enter'' False) =
      handleSendMessage retyped_state clock0 ''And the day after?''"
    by (simp add: on_event_def r)
  show ?thesis
    by (simp add: e handleSendMessage_sends t2 r m1 send_disabled_def messageText_def)
qed

text \<open>
  C7, as the code has it. A send whose text is not empty after trimming, or that has at
  least one attachment staged, appends exactly one user message at once and issues one
  request; when the exchange ends, in whatever way, exactly one bot message is appended to
  the transcript of that moment, so the turn adds exactly two messages, and the user
  message stays.
\<close>

theorem C7_turn_adds_two:
  assumes "trim t \<noteq> [] \<or> attachedFiles st \<noteq> []"
  shows "\<exists>u b. snd (handleSendMessage st clock t) \<noteq> None \<and>
           messages (fst (handleSendMessage st clock t)) = messages st @ [u] \<and>
           \<not> isBot u \<and> msg_text u = trim t \<and>
           messages (handleSendMessage_settled (fst (handleSendMessage st clock t)) clock' outcome) =
             messages st @ [u, b] \<and>
           isBot b \<and>
           length (messages (handleSendMessage_settled (fst (handleSendMessage st clock t)) clock'
             outcome)) = length (messages st) + 2 \<and>
           (\<exists>b'. messages (handleSendMessage_settled st' clock' outcome) = messages st' @ [b'] \<and>
              isBot b')"
proof -
  let ?st1 = "fst (handleSendMessage st clock t)"
  obtain b where b: "messages (handleSendMessage_settled ?st1 clock' outcome) = messages ?st1 @ [b]"
    "isBot b"
    using settled_appends_one by blast
  show ?thesis
    using b settled_appends_one [of st' clock' outcome]
    by (simp add: handleSendMessage_sends [OF assms])
qed

theorem C7_witness:
  "trim ''Will it rain tomorrow?'' \<noteq> [] \<and>
   snd (handleSendMessage typed_state clock0 ''Will it rain tomorrow?'') \<noteq> None \<and>
   length (messages (handleSendMessage_settled
     (fst (handleSendMessage typed_state clock0 ''Will it rain tomorrow?'')) clock0 Rejected)) =
     length (messages typed_state) + 2"
proof -
  have t: "trim ''Will it rain tomorrow?'' \<noteq> []"
    by (simp add: trim_literal)
  then have "trim ''Will it rain tomorrow?'' \<noteq> [] \<or> attachedFiles typed_state \<noteq> []"
    by simp
  from C7_turn_adds_two [OF this, of clock0 clock0 Rejected typed_state] t
  show ?thesis
    by auto
qed

text \<open>
  C7 as stated fails for a text that is not empty but blank: sending a single space with
  nothing attached appends nothing and issues no request.
\<close>

theorem C7_counterexample:
  "'' '' \<noteq> [] \<and> attachedFiles typed_state = [] \<and>
   handleSendMessage typed_state clock0 '' '' = (typed_state, None) \<and>
   length (messages (fst (handleSendMessage typed_state clock0 '' ''))) =
     length (messages typed_state)"
  by (simp add: handleSendMessage_def trim_def is_whitespace_def typed_state_def initial_state_def)

text \<open>
  C8. A send whose text is empty or consists of white space only, with no attachment
  staged, changes nothing: the state is returned as it was (transcript, input, staging and
  \<open>isTyping\<close>) and no request is issued.
\<close>

theorem C8_blank_send_is_noop:
  assumes "\<forall>c\<in>set t. is_whitespace c" and "attachedFiles st = []"
  shows "handleSendMessage st clock t = (st, None)"
  using assms by (simp add: handleSendMessage_def trim_Nil_iff)

theorem C8_witness:
  "is_whitespace (CHR '' '') \<and> is_whitespace (CHR 0x09) \<and> is_whitespace (CHR 0x0A) \<and>
   attachedFiles (initial_state 0 None) = [] \<and>
   handleSendMessage (initial_state 0 None) clock0 [CHR '' '', CHR 0x09, CHR 0x0A] =
     (initial_state 0 None, None) \<and>
   handleSendMessage (initial_state 0 None) clock0 [] = (initial_state 0 None, None)"
proof -
  have w: "\<forall>c\<in>set [CHR '' '', CHR 0x09, CHR 0x0A]. is_whitespace c"
    by (simp add: is_whitespace_def)
  have e: "\<forall>c\<in>set ([] :: string). is_whitespace c"
    by simp
  have a: "attachedFiles (initial_state 0 None) = []"
    by (simp add: initial_state_def)
  show ?thesis
    using C8_blank_send_is_noop [OF w a, of clock0] C8_blank_send_is_noop [OF e a, of clock0] w a
    by simp
qed

text \<open>
  C9. With at least one attachment staged, the \<open>message\<close> of the request body is the
  trimmed text, a line feed when that text is not empty, and \<open>[Attached files: ...]\<close> with
  the file names joined by a comma and a space. The body has the fields \<open>message\<close>,
  \<open>language\<close>, \<open>location\<close> and \<open>date\<close> only, and the request is the same for any
  attachments with these names, whatever their bytes, types and previews.
\<close>

theorem C9_attachment_names_only:
  assumes "attachedFiles st \<noteq> []"
  shows "\<exists>r. snd (handleSendMessage st clock t) = Some r \<and>
           req_message (json_body r) =
             trim t @ (if trim t = [] then [] else nl) @ ''[Attached files: '' @
             join '', '' (map (\<lambda>a. name (file_obj a)) (attachedFiles st)) @ '']'' \<and>
           (\<forall>fs. map (\<lambda>a. name (file_obj a)) fs = map (\<lambda>a. name (file_obj a)) (attachedFiles st) \<longrightarrow>
              snd (handleSendMessage (st\<lparr>attachedFiles := fs\<rparr>) clock t) = Some r)"
proof -
  let ?names = "\<lambda>fs. map (\<lambda>a. name (file_obj a)) fs"
  let ?r = "\<lambda>fs. \<lparr>url = ''http://localhost:3001/api/chat'', http_method = ''POST'',
      headers = [(''Content-Type'', ''application/json'')],
      json_body = \<lparr>req_message = messageText t fs, req_language = language st,
        req_location = props_location st, req_date = Some (toISOString (clock 2))\<rparr>\<rparr>"
  have sent: "snd (handleSendMessage st clock t) = Some (?r (attachedFiles st))"
    using assms by (simp add: handleSendMessage_sends)
  have msg: "req_message (json_body (?r (attachedFiles st))) =
      trim t @ (if trim t = [] then [] else nl) @ ''[Attached files: '' @
      join '', '' (?names (attachedFiles st)) @ '']''"
    using assms by (simp add: messageText_def)
  have same: "snd (handleSendMessage (st\<lparr>attachedFiles := fs\<rparr>) clock t) =
      Some (?r (attachedFiles st))"
    if names: "?names fs = ?names (attachedFiles st)" for fs
  proof -
    have ne: "fs \<noteq> []"
      using names assms by auto
    then have "messageText t fs = messageText t (attachedFiles st)"
      using assms by (simp add: messageText_def names)
    moreover have "trim t \<noteq> [] \<or> attachedFiles (st\<lparr>attachedFiles := fs\<rparr>) \<noteq> []"
      using ne by simp
    ultimately show ?thesis
      by (simp add: handleSendMessage_sends)
  qed
  show ?thesis
    using sent msg same by blast
qed

theorem C9_witness:
  "attachedFiles (typed_state\<lparr>attachedFiles := [leaf_photo, soil_report]\<rparr>) \<noteq> [] \<and>
   map_option (\<lambda>r. req_message (json_body r))
     (snd (handleSendMessage (typed_state\<lparr>attachedFiles := [leaf_photo, soil_report]\<rparr>) clock0
        ''Will it rain tomorrow?'')) =
     Some (''Will it rain tomorrow?'' @ nl @ ''[Attached files: leaf.png, soil.pdf]'') \<and>
   bytes (file_obj (soil_report\<lparr>file_obj := (file_obj soil_report)\<lparr>bytes := ''other bytes''\<rparr>\<rparr>)) \<noteq>
     bytes (file_obj soil_report) \<and>
   snd (handleSendMessage
     (typed_state\<lparr>attachedFiles :=
        [leaf_photo\<lparr>preview := None\<rparr>,
         soil_report\<lparr>file_obj := (file_obj soil_report)\<lparr>bytes := ''other bytes''\<rparr>\<rparr>]\<rparr>)
     clock0 ''Will it rain tomorrow?'') =
   snd (handleSendMessage (typed_state\<lparr>attachedFiles := [leaf_photo, soil_report]\<rparr>) clock0
     ''Will it rain tomorrow?'')"
proof -
  let ?st = "typed_state\<lparr>attachedFiles := [leaf_photo, soil_report]\<rparr>"
  let ?fs = "[leaf_photo\<lparr>preview := None\<rparr>,
    soil_report\<lparr>file_obj := (file_obj soil_report)\<lparr>bytes := ''other bytes''\<rparr>\<rparr>]"
  have a: "attachedFiles ?st \<noteq> []"
    by simp
  have n: "map (\<lambda>a. name (file_obj a)) ?fs = map (\<lambda>a. name (file_obj a)) (attachedFiles ?st)"
    by simp
  have u: "?st\<lparr>attachedFiles := ?fs\<rparr> = typed_state\<lparr>attachedFiles := ?fs\<rparr>"
    by simp
  obtain r where r: "snd (handleSendMessage ?st clock0 ''Will it rain tomorrow?'') = Some r"
    "req_message (json_body r) =
       trim ''Will it rain tomorrow?'' @ (if trim ''Will it rain tomorrow?'' = [] then [] else nl) @
       ''[Attached files: '' @ join '', '' (map (\<lambda>a. name (file_obj a)) (attachedFiles ?st)) @ '']''"
    "snd (handleSendMessage (?st\<lparr>attachedFiles := ?fs\<rparr>) clock0 ''Will it rain tomorrow?'') = Some r"
    using C9_attachment_names_only [OF a, of clock0 "''Will it rain tomorrow?''"] n by blast
  have "req_message (json_body r) =
      ''Will it rain tomorrow?'' @ nl @ ''[Attached files: leaf.png, soil.pdf]''"
    by (simp add: r(2) trim_literal leaf_photo_def soil_report_def)
  moreover have "bytes (file_obj (soil_report\<lparr>file_obj :=
      (file_obj soil_report)\<lparr>bytes := ''other bytes''\<rparr>\<rparr>)) \<noteq> bytes (file_obj soil_report)"
    by (simp add: soil_report_def)
  ultimately show ?thesis
    using r(1) r(3) a unfolding u by simp
qed

end
